theory Spec2Isabelle
  imports Main "HOL-Library.Word"
begin

section \<open>A location-logging HTTP service (backend/main.go)\<close>

text \<open>
  The backend is a Go program of three functions (\<open>enableCORS\<close>, \<open>handlePostLocation\<close>,
  \<open>handleGetLastLocation\<close>) and the route table of \<open>main\<close>. The handlers call into
  \<open>encoding/json\<close>, \<open>net/http\<close> and GORM over SQLite. The handlers are embedded line by
  line; of the libraries, the part the handlers observe is written down in the sections
  below, each with the behaviour it stands for.

  Conventions: a handler takes the table of stored rows and the response writer and returns
  both; every early \<open>return\<close> of the Go code is a branch. \<open>log.Printf\<close> has no effect on
  the response or on the table and is left out.
\<close>

subsection \<open>The Location struct\<close>

text \<open>
  \<open>ID uint\<close> is a natural number (below \<open>2 ^ 64\<close>, which the decoder enforces).
  A \<open>float64\<close> is its 64 bits in IEEE 754 binary64: the handlers never compute with one,
  they only move it, and the only value the program itself makes is the zero value of an
  uninitialised field, \<open>+0.0\<close>, all bits zero. \<open>-0.0\<close> is the sign bit alone. A
  \<open>time.Time\<close> is an integer, \<open>0\<close> being the zero value \<open>time.Time{}\<close>.
\<close>

type_synonym float64 = "64 word"

type_synonym time = int

definition negative_zero :: float64 where
  "negative_zero = 0x8000000000000000"

record Location =
  ID :: nat
  Latitude :: float64
  Longitude :: float64
  Timestamp :: time

text \<open>\<open>var newLocation Location\<close>: every field has its zero value.\<close>

definition zero_Location :: Location where
  "zero_Location = \<lparr>ID = 0, Latitude = 0, Longitude = 0, Timestamp = 0\<rparr>"

subsection \<open>Requests\<close>

text \<open>
  A JSON document is a syntax tree whose numbers and strings are kept as the text between
  the delimiters. A request body is what \<open>json.NewDecoder(r.Body)\<close> finds first in the
  stream: a document, or nothing it can read (a syntax error, an empty body, a failed
  read), given by the text of the error.
\<close>

datatype json =
    JNull
  | JBool bool
  | JNumber string
  | JString string
  | JArray "json list"
  | JObject "(string \<times> json) list"

datatype body = Unreadable string | Document json

record request =
  Method :: string
  Path :: string
  Body :: body

subsection \<open>strconv and time: the conversions of leaves\<close>

text \<open>
  \<open>strconv.ParseFloat(s, 64)\<close> and the parser of \<open>time.Time.UnmarshalJSON\<close> are
  parameters: \<open>ParseFloat L s\<close> is \<open>None\<close> where the Go function returns an error (a value
  out of range), \<open>ParseTime L s\<close> is \<open>Inl\<close> of the error text where the string is not an
  RFC 3339 time. On the text of a JSON number \<open>ParseFloat\<close> yields a finite value or an
  error, never a NaN or an infinity.
\<close>

record lib =
  ParseFloat :: "string \<Rightarrow> float64 option"
  ParseTime :: "string \<Rightarrow> string + time"

text \<open>
  \<open>strconv.ParseUint(s, 10, 64)\<close>: a non-empty string of decimal digits whose value is
  below \<open>2 ^ 64\<close> (\<open>uint\<close> is taken to be 64 bits wide).
\<close>

definition digit :: "char \<Rightarrow> nat option" where
  "digit c = (let n = (of_char c :: nat) in if 48 \<le> n \<and> n \<le> 57 then Some (n - 48) else None)"

fun digits :: "nat \<Rightarrow> string \<Rightarrow> nat option" where
  "digits acc [] = Some acc"
| "digits acc (c # cs) = (case digit c of None \<Rightarrow> None | Some d \<Rightarrow> digits (acc * 10 + d) cs)"

definition ParseUint :: "string \<Rightarrow> nat option" where
  "ParseUint s =
     (if s = [] then None
      else case digits 0 s of
             None \<Rightarrow> None
           | Some n \<Rightarrow> if n < 2 ^ 64 then Some n else None)"

subsection \<open>encoding/json: decoding into a Location\<close>

text \<open>
  A member of a JSON object is stored into the struct field whose name equals the key under
  Unicode simple case folding; a key that matches no field is skipped. Strings are bytes in
  UTF-8. Next to the two cases of an ASCII letter, the folding identifies the long s
  (U+017F, the bytes C5 BF) with \<open>s\<close> and the Kelvin sign (U+212A, the bytes E2 84 AA) with
  \<open>k\<close>; no other character folds to an ASCII letter.
\<close>

definition to_lower :: "char \<Rightarrow> char" where
  "to_lower c =
     (case map_of (zip ''ABCDEFGHIJKLMNOPQRSTUVWXYZ'' ''abcdefghijklmnopqrstuvwxyz'') c of
        Some l \<Rightarrow> l
      | None \<Rightarrow> c)"

fun fold_name :: "string \<Rightarrow> string" where
  "fold_name (a # b # c # cs) =
     (if a = CHR 0xC5 \<and> b = CHR 0xBF then CHR ''s'' # fold_name (c # cs)
      else if a = CHR 0xE2 \<and> b = CHR 0x84 \<and> c = CHR 0xAA then CHR ''k'' # fold_name cs
      else to_lower a # fold_name (b # c # cs))"
| "fold_name [a, b] =
     (if a = CHR 0xC5 \<and> b = CHR 0xBF then ''s'' else to_lower a # fold_name [b])"
| "fold_name [a] = [to_lower a]"
| "fold_name [] = []"

datatype field = F_ID | F_Latitude | F_Longitude | F_Timestamp

definition field_of_key :: "string \<Rightarrow> field option" where
  "field_of_key k =
     map_of [(''id'', F_ID), (''latitude'', F_Latitude), (''longitude'', F_Longitude),
             (''timestamp'', F_Timestamp)] (fold_name k)"

text \<open>The \<open>Value\<close> of an \<open>UnmarshalTypeError\<close> and the text of the error.\<close>

fun kind :: "json \<Rightarrow> string" where
  "kind JNull = ''null''"
| "kind (JBool b) = ''bool''"
| "kind (JNumber s) = ''number''"
| "kind (JString s) = ''string''"
| "kind (JArray vs) = ''array''"
| "kind (JObject ms) = ''object''"

definition type_error :: "string \<Rightarrow> string \<Rightarrow> string \<Rightarrow> string" where
  "type_error val fld ty =
     ''json: cannot unmarshal '' @ val @ '' into Go struct field Location.'' @ fld
       @ '' of type '' @ ty"

text \<open>
  Storing one value into one field. \<open>null\<close> leaves a field as it is. A value of the wrong
  JSON type, or a number the field's type cannot hold (the error then names the number), is
  a type error: the decoder records the first of them and goes on. \<open>time.Time\<close> decodes
  itself, and its error stops the decoding at once.
\<close>

datatype stored = Stored "Location" | Mismatch string | Abort string

fun store_field :: "lib \<Rightarrow> field \<Rightarrow> json \<Rightarrow> Location \<Rightarrow> stored" where
  "store_field L f JNull loc = Stored loc"
| "store_field L F_ID (JNumber s) loc =
     (case ParseUint s of
        Some n \<Rightarrow> Stored (loc\<lparr>ID := n\<rparr>)
      | None \<Rightarrow> Mismatch (type_error (''number '' @ s) ''ID'' ''uint''))"
| "store_field L F_ID v loc = Mismatch (type_error (kind v) ''ID'' ''uint'')"
| "store_field L F_Latitude (JNumber s) loc =
     (case ParseFloat L s of
        Some x \<Rightarrow> Stored (loc\<lparr>Latitude := x\<rparr>)
      | None \<Rightarrow> Mismatch (type_error (''number '' @ s) ''Latitude'' ''float64''))"
| "store_field L F_Latitude v loc = Mismatch (type_error (kind v) ''Latitude'' ''float64'')"
| "store_field L F_Longitude (JNumber s) loc =
     (case ParseFloat L s of
        Some x \<Rightarrow> Stored (loc\<lparr>Longitude := x\<rparr>)
      | None \<Rightarrow> Mismatch (type_error (''number '' @ s) ''Longitude'' ''float64''))"
| "store_field L F_Longitude v loc = Mismatch (type_error (kind v) ''Longitude'' ''float64'')"
| "store_field L F_Timestamp (JString s) loc =
     (case ParseTime L s of
        Inr t \<Rightarrow> Stored (loc\<lparr>Timestamp := t\<rparr>)
      | Inl e \<Rightarrow> Abort e)"
| "store_field L F_Timestamp v loc = Abort ''Time.UnmarshalJSON: input is not a JSON string''"

fun object_members ::
  "lib \<Rightarrow> (string \<times> json) list \<Rightarrow> Location \<Rightarrow> string option \<Rightarrow> string + Location" where
  "object_members L [] loc saved = (case saved of None \<Rightarrow> Inr loc | Some e \<Rightarrow> Inl e)"
| "object_members L ((k, v) # ms) loc saved =
     (case field_of_key k of
        None \<Rightarrow> object_members L ms loc saved
      | Some f \<Rightarrow>
          (case store_field L f v loc of
             Stored loc' \<Rightarrow> object_members L ms loc' saved
           | Mismatch e \<Rightarrow>
               object_members L ms loc (case saved of None \<Rightarrow> Some e | Some e0 \<Rightarrow> Some e0)
           | Abort e \<Rightarrow> Inl e))"

text \<open>
  \<open>Unmarshal\<close> into a struct: \<open>null\<close> changes nothing, an object is stored member by
  member (a later member of the same field overwrites an earlier one), anything else is a
  type error.
\<close>

fun Unmarshal :: "lib \<Rightarrow> json \<Rightarrow> Location \<Rightarrow> string + Location" where
  "Unmarshal L JNull loc = Inr loc"
| "Unmarshal L (JObject ms) loc = object_members L ms loc None"
| "Unmarshal L v loc =
     Inl (''json: cannot unmarshal '' @ kind v @ '' into Go value of type main.Location'')"

text \<open>\<open>json.NewDecoder(r.Body).Decode(&newLocation)\<close>; \<open>Inl\<close> carries \<open>err.Error()\<close>.\<close>

fun Decode :: "lib \<Rightarrow> body \<Rightarrow> Location \<Rightarrow> string + Location" where
  "Decode L (Unreadable e) loc = Inl e"
| "Decode L (Document v) loc = Unmarshal L v loc"

subsection \<open>net/http: the response writer\<close>

text \<open>
  What the handler has written: the header map, the status line once \<open>WriteHeader\<close> has
  run, and the chunks of the body in order. A record encoded by \<open>json.Encoder\<close> is kept as
  the record, since the text of a \<open>float64\<close> and of a time is the encoder's business.
  Headers the server adds on its own (\<open>Date\<close>, \<open>Content-Length\<close>, a sniffed
  \<open>Content-Type\<close>) are not part of the model.
\<close>

datatype chunk = Bytes string | LocationJSON "Location"

record ResponseWriter =
  header :: "string \<rightharpoonup> string"
  wroteHeader :: "nat option"
  written :: "chunk list"

definition NewResponseWriter :: "ResponseWriter" where
  "NewResponseWriter = \<lparr>header = Map.empty, wroteHeader = None, written = []\<rparr>"

abbreviation StatusOK :: nat where "StatusOK \<equiv> 200"
abbreviation StatusCreated :: nat where "StatusCreated \<equiv> 201"
abbreviation StatusBadRequest :: nat where "StatusBadRequest \<equiv> 400"
abbreviation StatusNotFound :: nat where "StatusNotFound \<equiv> 404"
abbreviation StatusMethodNotAllowed :: nat where "StatusMethodNotAllowed \<equiv> 405"
abbreviation StatusInternalServerError :: nat where "StatusInternalServerError \<equiv> 500"

text \<open>Once the status line is out, a change of the header map no longer reaches the client.\<close>

definition Header_Set :: "string \<Rightarrow> string \<Rightarrow> ResponseWriter \<Rightarrow> ResponseWriter" where
  "Header_Set k v w = (if wroteHeader w = None then w\<lparr>header := (header w)(k \<mapsto> v)\<rparr> else w)"

definition Header_Del :: "string \<Rightarrow> ResponseWriter \<Rightarrow> ResponseWriter" where
  "Header_Del k w = (if wroteHeader w = None then w\<lparr>header := (header w)(k := None)\<rparr> else w)"

text \<open>Only the first \<open>WriteHeader\<close> counts; a \<open>Write\<close> before any sends \<open>200\<close>.\<close>

definition WriteHeader :: "nat \<Rightarrow> ResponseWriter \<Rightarrow> ResponseWriter" where
  "WriteHeader code w = (if wroteHeader w = None then w\<lparr>wroteHeader := Some code\<rparr> else w)"

definition Write :: "chunk \<Rightarrow> ResponseWriter \<Rightarrow> ResponseWriter" where
  "Write c w = (let w' = WriteHeader StatusOK w in w'\<lparr>written := written w' @ [c]\<rparr>)"

text \<open>The status the client sees: \<open>200\<close> when the handler returns without writing one.\<close>

definition StatusCode :: "ResponseWriter \<Rightarrow> nat" where
  "StatusCode w = (case wroteHeader w of None \<Rightarrow> StatusOK | Some c \<Rightarrow> c)"

definition newline :: string where
  "newline = [CHR 0x0A]"

text \<open>\<open>http.Error(w, msg, code)\<close>: a plain-text reply, the message followed by a newline.\<close>

definition http_Error :: "ResponseWriter \<Rightarrow> string \<Rightarrow> nat \<Rightarrow> ResponseWriter" where
  "http_Error w msg code =
     Write (Bytes (msg @ newline))
       (WriteHeader code
         (Header_Set ''X-Content-Type-Options'' ''nosniff''
           (Header_Set ''Content-Type'' ''text/plain; charset=utf-8''
             (Header_Del ''Content-Length'' w))))"

subsection \<open>GORM over SQLite: the table of locations\<close>

text \<open>
  The table is the list of its rows in the order of insertion. Each statement runs in an
  environment that gives the clock and tells whether the storage fails (\<open>Fault\<close>, the text
  of the error).

  \<open>DB.Create\<close> inserts one row. GORM leaves a non-zero primary key and a non-zero
  \<open>autoCreateTime\<close> field of the struct as they are, and fills in a zero one: the time
  with the clock, the key with what SQLite assigns, one more than the largest key of the
  table. Keys are SQLite row ids, at most \<open>2 ^ 63 - 1\<close>: when the table has reached that
  key, SQLite assigns no further one, and an insert under a greater key fails. An insert
  under a key that is taken fails on the primary-key constraint. Of these three failures
  the model has the status, not the wording of the driver's error.

  The coordinates go into columns of type \<open>real\<close>. Such a column returns the bits it was
  given for every finite value but one: SQLite keeps a value without a fractional part as
  an integer, and \<open>-0.0\<close> comes back as \<open>+0.0\<close>.
\<close>

type_synonym table = "Location list"

record env =
  Now :: time
  Fault :: "string option"

datatype db_error = ErrRecordNotFound | ErrStorage string

fun Error_text :: "db_error \<Rightarrow> string" where
  "Error_text ErrRecordNotFound = ''record not found''"
| "Error_text (ErrStorage e) = e"

definition REAL :: "float64 \<Rightarrow> float64" where
  "REAL x = (if x = negative_zero then 0 else x)"

definition max_rowid :: nat where
  "max_rowid = 2 ^ 63 - 1"

definition max_id :: "table \<Rightarrow> nat" where
  "max_id tbl = foldr max (map ID tbl) 0"

definition DB_Create :: "env \<Rightarrow> table \<Rightarrow> Location \<Rightarrow> db_error + table" where
  "DB_Create e tbl loc =
     (case Fault e of
        Some msg \<Rightarrow> Inl (ErrStorage msg)
      | None \<Rightarrow>
          (let row = loc\<lparr>Latitude := REAL (Latitude loc), Longitude := REAL (Longitude loc),
                         Timestamp := (if Timestamp loc = 0 then Now e else Timestamp loc)\<rparr>
           in
           if ID loc = 0 then
             (if max_rowid \<le> max_id tbl then Inl (ErrStorage ''database or disk is full'')
              else Inr (tbl @ [row\<lparr>ID := max_id tbl + 1\<rparr>]))
           else if max_rowid < ID loc then Inl (ErrStorage ''integer out of range'')
           else if ID loc \<in> set (map ID tbl) then
             Inl (ErrStorage ''UNIQUE constraint failed: locations.id'')
           else Inr (tbl @ [row])))"

text \<open>
  \<open>DB.Order("id DESC").First(&lastLocation)\<close>: the rows in descending order of \<open>id\<close>, the
  first of them, \<open>ErrRecordNotFound\<close> when there is none.
\<close>

definition Order_id_DESC :: "table \<Rightarrow> table" where
  "Order_id_DESC tbl = rev (sort_key ID tbl)"

definition DB_First :: "env \<Rightarrow> table \<Rightarrow> db_error + Location" where
  "DB_First e tbl =
     (case Fault e of
        Some msg \<Rightarrow> Inl (ErrStorage msg)
      | None \<Rightarrow>
          (case Order_id_DESC tbl of
             [] \<Rightarrow> Inl ErrRecordNotFound
           | r # rs \<Rightarrow> Inr r))"

subsection \<open>The handlers\<close>

type_synonym handler =
  "env \<Rightarrow> table \<Rightarrow> ResponseWriter \<Rightarrow> request \<Rightarrow> table \<times> ResponseWriter"

definition enableCORS :: "handler \<Rightarrow> handler" where
  "enableCORS next e db w r =
     (let w1 = Header_Set ''Access-Control-Allow-Origin'' ''*'' w;
          w2 = Header_Set ''Access-Control-Allow-Methods'' ''POST, GET, OPTIONS'' w1;
          w3 = Header_Set ''Access-Control-Allow-Headers'' ''Content-Type'' w2
      in if Method r = ''OPTIONS'' then (db, WriteHeader StatusOK w3)
         else next e db w3 r)"

definition saved_message :: string where
  \<open>saved_message = ''{"message":"Location saved successfully"}'' @ newline\<close>

definition handlePostLocation :: "lib \<Rightarrow> handler" where
  "handlePostLocation L e db w r =
     (if Method r \<noteq> ''POST'' then
        (db, http_Error w ''Method not allowed'' StatusMethodNotAllowed)
      else
        case Decode L (Body r) zero_Location of
          Inl err \<Rightarrow>
            (db, http_Error w (''Invalid request payload: '' @ err) StatusBadRequest)
        | Inr newLocation \<Rightarrow>
            (case DB_Create e db newLocation of
               Inl err \<Rightarrow>
                 (db, http_Error w (''Failed to save location: '' @ Error_text err)
                        StatusInternalServerError)
             | Inr db' \<Rightarrow>
                 (db', Write (Bytes saved_message) (WriteHeader StatusCreated w))))"

definition handleGetLastLocation :: "handler" where
  "handleGetLastLocation e db w r =
     (if Method r \<noteq> ''GET'' then
        (db, http_Error w ''Method not allowed'' StatusMethodNotAllowed)
      else
        case DB_First e db of
          Inl err \<Rightarrow>
            (if err = ErrRecordNotFound then
               (db, http_Error w ''No locations found'' StatusNotFound)
             else
               (db, http_Error w (''Failed to retrieve last location: '' @ Error_text err)
                      StatusInternalServerError))
        | Inr lastLocation \<Rightarrow>
            (db, Write (LocationJSON lastLocation)
                   (Header_Set ''Content-Type'' ''application/json'' w)))"

subsection \<open>The routes of main\<close>

text \<open>
  \<open>http.HandleFunc\<close> registers the two paths; a request to any other path is answered by
  the multiplexer's own \<open>404 page not found\<close> (its redirect of a path that is not in
  canonical form, such as one with a doubled slash, is left out: \<open>Path\<close> is a canonical
  path). \<open>serve\<close> handles one request on a fresh
  response writer, \<open>run\<close> a sequence of them, each in its own environment.
\<close>

definition serve :: "lib \<Rightarrow> env \<Rightarrow> table \<Rightarrow> request \<Rightarrow> table \<times> ResponseWriter" where
  "serve L e db r =
     (if Path r = ''/api/location'' then
        enableCORS (handlePostLocation L) e db NewResponseWriter r
      else if Path r = ''/api/location/last'' then
        enableCORS handleGetLastLocation e db NewResponseWriter r
      else (db, http_Error NewResponseWriter ''404 page not found'' StatusNotFound))"

fun run ::
  "lib \<Rightarrow> table \<Rightarrow> (env \<times> request) list \<Rightarrow> table \<times> ResponseWriter list" where
  "run L db [] = (db, [])"
| "run L db ((e, r) # rs) =
     (case serve L e db r of
        (db1, w) \<Rightarrow> (case run L db1 rs of (db2, ws) \<Rightarrow> (db2, w # ws)))"

subsection \<open>Requests and parsers to evaluate the handlers on\<close>

text \<open>
  The writer a handler receives from \<open>enableCORS\<close> on a fresh response: the three headers
  set, nothing written yet.
\<close>

definition cors :: "ResponseWriter" where
  "cors =
     \<lparr>header = [''Access-Control-Allow-Origin'' \<mapsto> ''*'',
                 ''Access-Control-Allow-Methods'' \<mapsto> ''POST, GET, OPTIONS'',
                 ''Access-Control-Allow-Headers'' \<mapsto> ''Content-Type''],
      wroteHeader = None, written = []\<rparr>"

text \<open>
  The two requests of the client (\<open>App.tsx\<close>): a \<open>POST\<close> of a body to the create path,
  whose body is \<open>JSON.stringify({ Latitude: latitude, Longitude: longitude })\<close>, and a
  \<open>GET\<close> of the latest record, which has no body. \<open>with_ID\<close> is the body of a client that
  adds an \<open>ID\<close> member.
\<close>

definition POST :: "body \<Rightarrow> request" where
  "POST b = \<lparr>Method = ''POST'', Path = ''/api/location'', Body = b\<rparr>"

definition GET_last :: request where
  "GET_last = \<lparr>Method = ''GET'', Path = ''/api/location/last'', Body = Unreadable ''EOF''\<rparr>"

definition coordinates :: "string \<Rightarrow> string \<Rightarrow> body" where
  "coordinates a b = Document (JObject [(''Latitude'', JNumber a), (''Longitude'', JNumber b)])"

definition with_ID :: "string \<Rightarrow> string \<Rightarrow> string \<Rightarrow> body" where
  "with_ID i a b =
     Document (JObject [(''ID'', JNumber i), (''Latitude'', JNumber a), (''Longitude'', JNumber b)])"

subsection \<open>Members of an object, by the field they name\<close>

text \<open>No member of the object is stored into the field \<open>f\<close>.\<close>

definition absent :: "field \<Rightarrow> (string \<times> json) list \<Rightarrow> bool" where
  "absent f ms = list_all (\<lambda>(k, v). field_of_key k \<noteq> Some f) ms"

text \<open>
  A value a field can hold: \<open>null\<close> for any field; for \<open>ID\<close> a number written as an
  unsigned decimal integer below \<open>2 ^ 64\<close>; for a coordinate a number in the range of
  \<open>float64\<close>; for \<open>Timestamp\<close> a string that is an RFC 3339 time. An object is well typed
  when each of its members that names a field has a value the field can hold.
\<close>

fun holds :: "lib \<Rightarrow> field \<Rightarrow> json \<Rightarrow> bool" where
  "holds L f JNull = True"
| "holds L F_ID (JNumber s) = (ParseUint s \<noteq> None)"
| "holds L F_Latitude (JNumber s) = (ParseFloat L s \<noteq> None)"
| "holds L F_Longitude (JNumber s) = (ParseFloat L s \<noteq> None)"
| "holds L F_Timestamp (JString s) = (case ParseTime L s of Inl err \<Rightarrow> False | Inr t \<Rightarrow> True)"
| "holds L f v = False"

definition well_typed :: "lib \<Rightarrow> (string \<times> json) list \<Rightarrow> bool" where
  "well_typed L ms =
     list_all (\<lambda>(k, v). case field_of_key k of None \<Rightarrow> True | Some f \<Rightarrow> holds L f v) ms"

subsection \<open>An excerpt of the parsers\<close>

text \<open>
  An excerpt of the two parsers on a few texts, with a \<open>float64\<close> given by its IEEE 754 bits
  and a time by its seconds since the zero time; and an environment in which the storage
  works and the clock shows \<open>t\<close>.
\<close>

definition sample_lib :: lib where
  "sample_lib =
     \<lparr>ParseFloat = map_of [(''13.7563'', 0x402B8339C0EBEDFA), (''100.5018'', 0x4059201D7DBF4880),
                           (''1'', 0x3FF0000000000000), (''2'', 0x4000000000000000),
                           (''-0'', 0x8000000000000000)],
      ParseTime = (\<lambda>s. case map_of [(''2000-01-01T00:00:00Z'', 63082281600)] s of
                          None \<Rightarrow> Inl ''cannot parse as RFC 3339''
                        | Some t \<Rightarrow> Inr t)\<rparr>"

definition at :: "time \<Rightarrow> env" where
  "at t = \<lparr>Now = t, Fault = None\<rparr>"

section \<open>Properties\<close>

subsection \<open>The handlers behind the routes\<close>

lemmas key_defs = field_of_key_def to_lower_def

lemmas cors_writer_defs =
  cors_def http_Error_def Write_def WriteHeader_def Header_Set_def Header_Del_def StatusCode_def

lemmas eval_defs =
  key_defs zero_Location_def ParseUint_def digit_def type_error_def
  REAL_def negative_zero_def DB_Create_def DB_First_def Order_id_DESC_def max_id_def max_rowid_def
  cors_writer_defs sample_lib_def at_def coordinates_def with_ID_def

lemma enableCORS_fresh:
  "enableCORS next e db NewResponseWriter r =
     (if Method r = ''OPTIONS'' then (db, WriteHeader StatusOK cors) else next e db cors r)"
  by (simp add: enableCORS_def Header_Set_def NewResponseWriter_def cors_def)

lemma serve_POST:
  "serve L e db (POST b) =
     (case Decode L b zero_Location of
        Inl err \<Rightarrow> (db, http_Error cors (''Invalid request payload: '' @ err) StatusBadRequest)
      | Inr loc \<Rightarrow>
          (case DB_Create e db loc of
             Inl err \<Rightarrow>
               (db, http_Error cors (''Failed to save location: '' @ Error_text err)
                      StatusInternalServerError)
           | Inr db' \<Rightarrow> (db', Write (Bytes saved_message) (WriteHeader StatusCreated cors))))"
  by (simp add: serve_def enableCORS_fresh handlePostLocation_def POST_def split: sum.splits)

lemma serve_GET_last:
  "serve L e db GET_last =
     (case DB_First e db of
        Inl err \<Rightarrow>
          (if err = ErrRecordNotFound then (db, http_Error cors ''No locations found'' StatusNotFound)
           else (db, http_Error cors (''Failed to retrieve last location: '' @ Error_text err)
                       StatusInternalServerError))
      | Inr loc \<Rightarrow>
          (db, Write (LocationJSON loc) (Header_Set ''Content-Type'' ''application/json'' cors)))"
  by (simp add: serve_def enableCORS_fresh handleGetLastLocation_def GET_last_def
      split: sum.splits)

lemma serve_OPTIONS:
  assumes "Path r = ''/api/location'' \<or> Path r = ''/api/location/last''"
    and "Method r = ''OPTIONS''"
  shows "serve L e db r = (db, WriteHeader StatusOK cors)"
  using assms by (auto simp: serve_def enableCORS_fresh)

lemma serve_wrong_method:
  assumes "Method r \<noteq> ''OPTIONS''"
    and "Path r = ''/api/location'' \<and> Method r \<noteq> ''POST''
         \<or> Path r = ''/api/location/last'' \<and> Method r \<noteq> ''GET''"
  shows "serve L e db r = (db, http_Error cors ''Method not allowed'' StatusMethodNotAllowed)"
  using assms
  by (auto simp: serve_def enableCORS_fresh handlePostLocation_def handleGetLastLocation_def)

lemma StatusCode_http_Error_cors: "StatusCode (http_Error cors msg code) = code"
  by (simp add: cors_writer_defs)

subsection \<open>The table\<close>

lemma max_id_ge: "r \<in> set tbl \<Longrightarrow> ID r \<le> max_id tbl"
  by (induction tbl) (auto simp: max_id_def)

lemma Order_id_DESC_Nil: "Order_id_DESC tbl = [] \<longleftrightarrow> tbl = []"
  by (simp add: Order_id_DESC_def sort_key_def) (metis length_0_conv length_sort sort_key_def)

lemma Order_id_DESC_first:
  assumes "Order_id_DESC tbl = r # rs"
  shows "r \<in> set tbl \<and> (\<forall>x \<in> set tbl. ID x \<le> ID r)"
proof -
  let ?s = "sort_key ID tbl"
  have s: "?s = rev rs @ [r]"
    using assms by (simp add: Order_id_DESC_def rev_swap [symmetric])
  have "sorted (map ID ?s)" by (rule sorted_sort_key)
  then have "\<forall>x \<in> set (rev rs). ID x \<le> ID r"
    by (simp add: s sorted_append)
  moreover have "set ?s = set tbl" by simp
  ultimately show ?thesis
    unfolding s by auto
qed

lemma DB_First_empty: "Fault e = None \<Longrightarrow> DB_First e [] = Inl ErrRecordNotFound"
  by (simp add: DB_First_def Order_id_DESC_def)

lemma DB_First_nonempty:
  assumes "Fault e = None" and "tbl \<noteq> []"
  shows "\<exists>r. DB_First e tbl = Inr r \<and> r \<in> set tbl \<and> (\<forall>x \<in> set tbl. ID x \<le> ID r)"
proof (cases "Order_id_DESC tbl")
  case Nil
  with assms(2) show ?thesis by (simp add: Order_id_DESC_Nil)
next
  case (Cons r rs)
  then have "DB_First e tbl = Inr r"
    using assms(1) by (simp add: DB_First_def)
  with Order_id_DESC_first [OF Cons] show ?thesis by blast
qed

lemma DB_First_newest:
  assumes "Fault e = None" and "\<forall>x \<in> set tbl. ID x < ID n"
  shows "DB_First e (tbl @ [n]) = Inr n"
proof -
  obtain r where r: "DB_First e (tbl @ [n]) = Inr r" "r \<in> set (tbl @ [n])"
    "\<forall>x \<in> set (tbl @ [n]). ID x \<le> ID r"
    using DB_First_nonempty [OF assms(1), of "tbl @ [n]"] by auto
  have "r = n"
  proof (rule ccontr)
    assume "r \<noteq> n"
    with r(2) have "r \<in> set tbl" by simp
    with assms(2) have "ID r < ID n" by blast
    moreover from r(3) have "ID n \<le> ID r" by simp
    ultimately show False by simp
  qed
  with r(1) show ?thesis by simp
qed

lemma DB_Create_zero_ID:
  assumes "DB_Create e tbl loc = Inr tbl'" and "ID loc = 0"
  shows "tbl' = tbl @ [\<lparr>ID = max_id tbl + 1, Latitude = REAL (Latitude loc),
                           Longitude = REAL (Longitude loc),
                           Timestamp = (if Timestamp loc = 0 then Now e else Timestamp loc)\<rparr>]"
    and "Fault e = None" and "max_id tbl < max_rowid"
  using assms by (auto simp: DB_Create_def Let_def split: option.splits if_splits)

lemma DB_Create_appends:
  assumes "DB_Create e tbl loc = Inr tbl'"
  shows "\<exists>row. tbl' = tbl @ [row] \<and> Latitude row = REAL (Latitude loc)
           \<and> Longitude row = REAL (Longitude loc)"
  using assms by (auto simp: DB_Create_def Let_def split: option.splits if_splits)

lemma DB_Create_distinct:
  assumes "DB_Create e tbl loc = Inr tbl'" and "distinct (map ID tbl)"
  shows "distinct (map ID tbl')"
proof (cases "ID loc = 0")
  case True
  have "max_id tbl + 1 \<notin> ID ` set tbl"
    using max_id_ge [of _ tbl] by fastforce
  with DB_Create_zero_ID(1) [OF assms(1) True] assms(2) show ?thesis by simp
next
  case False
  with assms show ?thesis
    by (auto simp: DB_Create_def Let_def split: option.splits if_splits)
qed

subsection \<open>The decoder\<close>

lemma decode_coordinates:
  assumes "ParseFloat L a = Some x" and "ParseFloat L b = Some y"
  shows "Decode L (coordinates a b) zero_Location
           = Inr \<lparr>ID = 0, Latitude = x, Longitude = y, Timestamp = 0\<rparr>"
  using assms by (simp add: coordinates_def key_defs zero_Location_def)

lemma store_field_other:
  assumes "store_field L f v loc = Stored loc'"
  shows "(f \<noteq> F_ID \<longrightarrow> ID loc' = ID loc)
    \<and> (f \<noteq> F_Latitude \<longrightarrow> Latitude loc' = Latitude loc)
    \<and> (f \<noteq> F_Longitude \<longrightarrow> Longitude loc' = Longitude loc)
    \<and> (f \<noteq> F_Timestamp \<longrightarrow> Timestamp loc' = Timestamp loc)"
  using assms by (cases f; cases v) (auto split: option.splits sum.splits)

lemma object_members_absent:
  assumes "object_members L ms loc saved = Inr loc'"
  shows "(absent F_ID ms \<longrightarrow> ID loc' = ID loc)
    \<and> (absent F_Latitude ms \<longrightarrow> Latitude loc' = Latitude loc)
    \<and> (absent F_Longitude ms \<longrightarrow> Longitude loc' = Longitude loc)
    \<and> (absent F_Timestamp ms \<longrightarrow> Timestamp loc' = Timestamp loc)"
  using assms
proof (induction ms arbitrary: loc saved)
  case Nil
  then show ?case by (simp split: option.splits)
next
  case (Cons m ms)
  obtain k v where m: "m = (k, v)" by (cases m)
  show ?case
  proof (cases "field_of_key k")
    case None
    with Cons.prems have "object_members L ms loc saved = Inr loc'" by (simp add: m)
    from Cons.IH [OF this] None show ?thesis by (simp add: absent_def m)
  next
    case (Some f)
    show ?thesis
    proof (cases "store_field L f v loc")
      case (Stored loc1)
      with Cons.prems Some have "object_members L ms loc1 saved = Inr loc'" by (simp add: m)
      from Cons.IH [OF this] store_field_other [OF Stored] Some show ?thesis
        by (auto simp: absent_def m)
    next
      case (Mismatch err)
      with Cons.prems Some
      have "object_members L ms loc (case saved of None \<Rightarrow> Some err | Some e0 \<Rightarrow> Some e0) = Inr loc'"
        by (simp add: m)
      from Cons.IH [OF this] Some show ?thesis by (simp add: absent_def m)
    next
      case (Abort err)
      with Cons.prems Some show ?thesis by (simp add: m)
    qed
  qed
qed

lemma Decode_absent:
  assumes "Decode L (Document (JObject ms)) zero_Location = Inr loc"
  shows "(absent F_ID ms \<longrightarrow> ID loc = 0)
    \<and> (absent F_Latitude ms \<longrightarrow> Latitude loc = 0)
    \<and> (absent F_Longitude ms \<longrightarrow> Longitude loc = 0)
    \<and> (absent F_Timestamp ms \<longrightarrow> Timestamp loc = 0)"
proof -
  from assms have "object_members L ms zero_Location None = Inr loc" by simp
  from object_members_absent [OF this] show ?thesis
    by (simp add: zero_Location_def)
qed

text \<open>The decoder accepts exactly the well-typed objects.\<close>

lemma store_field_holds:
  "(\<exists>loc'. store_field L f v loc = Stored loc') \<longleftrightarrow> holds L f v"
  by (cases f; cases v) (auto split: option.splits sum.splits)

lemma object_members_saved:
  "object_members L ms loc (Some err) \<noteq> Inr loc'"
proof (induction ms arbitrary: loc err)
  case Nil
  show ?case by simp
next
  case (Cons m ms)
  obtain k v where m: "m = (k, v)" by (cases m)
  show ?case
    using Cons.IH by (simp add: m split: option.splits stored.splits)
qed

lemma object_members_well_typed:
  "(\<exists>loc'. object_members L ms loc None = Inr loc') \<longleftrightarrow> well_typed L ms"
proof (induction ms arbitrary: loc)
  case Nil
  show ?case by (simp add: well_typed_def)
next
  case (Cons m ms)
  obtain k v where m: "m = (k, v)" by (cases m)
  show ?case
  proof (cases "field_of_key k")
    case None
    with Cons.IH [of loc] show ?thesis by (simp add: m well_typed_def)
  next
    case (Some f)
    show ?thesis
    proof (cases "store_field L f v loc")
      case (Stored loc1)
      then have "holds L f v" using store_field_holds by blast
      with Cons.IH [of loc1] Some Stored show ?thesis by (simp add: m well_typed_def)
    next
      case (Mismatch err)
      then have "\<not> holds L f v" using store_field_holds [of L f v loc] by simp
      with Some Mismatch object_members_saved show ?thesis by (simp add: m well_typed_def)
    next
      case (Abort err)
      then have "\<not> holds L f v" using store_field_holds [of L f v loc] by simp
      with Some Abort show ?thesis by (simp add: m well_typed_def)
    qed
  qed
qed

lemma Decode_well_typed:
  "(\<exists>loc. Decode L (Document (JObject ms)) zero_Location = Inr loc) \<longleftrightarrow> well_typed L ms"
  using object_members_well_typed [of L ms zero_Location] by simp

subsection \<open>Ids the store assigns, and the latest record\<close>

text \<open>
  When the body has no \<open>ID\<close> member, the new row gets one more than the greatest id of the
  table, and with it an id above every stored one.
\<close>

lemma store_assigned_id:
  assumes "Decode L (Document (JObject ms)) zero_Location = Inr loc" and "absent F_ID ms"
    and "DB_Create e db loc = Inr db'"
  shows "\<exists>row. db' = db @ [row] \<and> ID row = max_id db + 1 \<and> (\<forall>x \<in> set db. ID x < ID row)"
proof -
  have "ID loc = 0" using Decode_absent [OF assms(1)] assms(2) by simp
  from DB_Create_zero_ID(1) [OF assms(3) this] max_id_ge [of _ db] show ?thesis
    by (auto simp: less_Suc_eq_le)
qed

text \<open>Whatever the requests, no two rows of the table come to share an id.\<close>

lemma serve_distinct:
  assumes "distinct (map ID db)"
  shows "distinct (map ID (fst (serve L e db r)))"
proof -
  have post: "distinct (map ID (fst (handlePostLocation L e db w r)))" for w
  proof (cases "Decode L (Body r) zero_Location")
    case (Inl err)
    with assms show ?thesis by (simp add: handlePostLocation_def)
  next
    case (Inr loc)
    note dec = Inr
    show ?thesis
    proof (cases "DB_Create e db loc")
      case (Inl err)
      with dec assms show ?thesis by (simp add: handlePostLocation_def)
    next
      case (Inr db')
      with DB_Create_distinct [OF Inr assms] dec assms show ?thesis
        by (simp add: handlePostLocation_def)
    qed
  qed
  have get: "fst (handleGetLastLocation e db w r) = db" for w
    by (simp add: handleGetLastLocation_def split: sum.splits)
  show ?thesis
    using post get assms by (auto simp: serve_def enableCORS_fresh)
qed

text \<open>
  Without a storage fault, the latest-record request is answered \<open>404\<close> exactly on the empty
  table, and otherwise \<open>200\<close> with a stored record of the greatest id.
\<close>

lemma fetch_latest_max_id:
  assumes "Fault e = None"
  shows "(StatusCode (snd (serve L e db GET_last)) = StatusNotFound \<longleftrightarrow> db = [])
    \<and> (db \<noteq> [] \<longrightarrow>
          (\<exists>r \<in> set db. (\<forall>x \<in> set db. ID x \<le> ID r)
             \<and> StatusCode (snd (serve L e db GET_last)) = StatusOK
             \<and> written (snd (serve L e db GET_last)) = [LocationJSON r]))"
proof (cases "db = []")
  case True
  then show ?thesis
    by (simp add: serve_GET_last DB_First_empty [OF assms] cors_writer_defs)
next
  case False
  from DB_First_nonempty [OF assms False]
  obtain r where r: "DB_First e db = Inr r" "r \<in> set db" "\<forall>x \<in> set db. ID x \<le> ID r"
    by blast
  have "StatusCode (snd (serve L e db GET_last)) = StatusOK
      \<and> written (snd (serve L e db GET_last)) = [LocationJSON r]"
    by (simp add: serve_GET_last r(1) cors_writer_defs)
  with r False show ?thesis by auto
qed

text \<open>
  So the record of a create whose body has no \<open>ID\<close> member is the latest one right after
  it, whatever the creation times in the table are.
\<close>

lemma store_assigned_is_latest:
  assumes "Decode L (Document (JObject ms)) zero_Location = Inr loc" and "absent F_ID ms"
    and "DB_Create e db loc = Inr db'" and "Fault e' = None"
  shows "StatusCode (snd (serve L e' db' GET_last)) = StatusOK
    \<and> written (snd (serve L e' db' GET_last)) = [LocationJSON (last db')]"
proof -
  obtain row where row: "db' = db @ [row]" "\<forall>x \<in> set db. ID x < ID row"
    using store_assigned_id [OF assms(1-3)] by blast
  have "DB_First e' db' = Inr row"
    unfolding row(1) using assms(4) row(2) by (rule DB_First_newest)
  then show ?thesis
    by (simp add: serve_GET_last row(1) cors_writer_defs)
qed

section \<open>The claims\<close>

text \<open>
  C1, as the claim states it, fails: a client posts the latitude \<open>-0\<close>, whose \<open>float64\<close> is
  \<open>-0.0\<close>, and is answered \<open>201\<close>; the request for the latest record that follows returns
  the latitude \<open>+0.0\<close>, other bits than the posted ones.
\<close>

theorem negative_zero_comes_back_positive:
  "ParseFloat sample_lib ''-0'' = Some negative_zero
   \<and> negative_zero \<noteq> 0
   \<and> StatusCode (snd (serve sample_lib (at 5) [] (POST (coordinates ''-0'' ''1'')))) = StatusCreated
   \<and> written (snd (serve sample_lib (at 6)
        (fst (serve sample_lib (at 5) [] (POST (coordinates ''-0'' ''1'')))) GET_last))
     = [LocationJSON \<lparr>ID = 1, Latitude = 0, Longitude = 0x3FF0000000000000, Timestamp = 5\<rparr>]"
  by (simp add: serve_POST serve_GET_last eval_defs)

text \<open>
  C1, amended. Let a client post the pair of coordinates \<open>x\<close>, \<open>y\<close> (the \<open>float64\<close> values
  of the two number texts of the body) and be answered \<open>201\<close>. Then the request for the
  latest record that follows, when the storage answers it, returns \<open>200\<close> with one record.
  Its latitude is \<open>x\<close> bit for bit unless \<open>x\<close> is \<open>-0.0\<close>, for which it is \<open>+0.0\<close>; its
  longitude is \<open>y\<close> in the same way.
\<close>

theorem post_then_get_last:
  assumes "ParseFloat L a = Some x" and "ParseFloat L b = Some y"
    and "serve L e db (POST (coordinates a b)) = (db1, w1)"
    and "StatusCode w1 = StatusCreated"
    and "Fault e' = None"
  shows "\<exists>w2 rec. serve L e' db1 GET_last = (db1, w2) \<and> StatusCode w2 = StatusOK
           \<and> written w2 = [LocationJSON rec]
           \<and> Latitude rec = (if x = negative_zero then 0 else x)
           \<and> Longitude rec = (if y = negative_zero then 0 else y)"
proof -
  let ?loc = "\<lparr>ID = 0, Latitude = x, Longitude = y, Timestamp = 0\<rparr>"
  have dec: "Decode L (coordinates a b) zero_Location = Inr ?loc"
    using assms(1,2) by (rule decode_coordinates)
  obtain tbl where cr: "DB_Create e db ?loc = Inr tbl"
    using assms(3,4)
    by (cases "DB_Create e db ?loc") (auto simp: serve_POST dec cors_writer_defs)
  have db1: "db1 = tbl"
    using assms(3) by (simp add: serve_POST dec cr)
  let ?n = "\<lparr>ID = max_id db + 1, Latitude = REAL x, Longitude = REAL y, Timestamp = Now e\<rparr>"
  have tbl: "tbl = db @ [?n]"
    using DB_Create_zero_ID(1) [OF cr] by simp
  have "\<forall>r \<in> set db. ID r < ID ?n"
    using max_id_ge [of _ db] by (auto simp: less_Suc_eq_le)
  then have first: "DB_First e' db1 = Inr ?n"
    unfolding db1 tbl using assms(5) DB_First_newest by blast
  show ?thesis
    by (simp add: serve_GET_last first cors_writer_defs REAL_def)
qed

theorem post_then_get_last_witness:
  "ParseFloat sample_lib ''13.7563'' = Some 0x402B8339C0EBEDFA
   \<and> ParseFloat sample_lib ''100.5018'' = Some 0x4059201D7DBF4880
   \<and> StatusCode (snd (serve sample_lib (at 5) [] (POST (coordinates ''13.7563'' ''100.5018''))))
       = StatusCreated
   \<and> Fault (at 6) = None
   \<and> (\<exists>w2 rec.
         serve sample_lib (at 6)
             (fst (serve sample_lib (at 5) [] (POST (coordinates ''13.7563'' ''100.5018'')))) GET_last
           = (fst (serve sample_lib (at 5) [] (POST (coordinates ''13.7563'' ''100.5018''))), w2)
         \<and> StatusCode w2 = StatusOK \<and> written w2 = [LocationJSON rec]
         \<and> Latitude rec = 0x402B8339C0EBEDFA \<and> Longitude rec = 0x4059201D7DBF4880)"
proof -
  let ?p = "serve sample_lib (at 5) [] (POST (coordinates ''13.7563'' ''100.5018''))"
  have a: "ParseFloat sample_lib ''13.7563'' = Some 0x402B8339C0EBEDFA"
    by (simp add: sample_lib_def)
  have b: "ParseFloat sample_lib ''100.5018'' = Some 0x4059201D7DBF4880"
    by (simp add: sample_lib_def)
  have p: "?p = (fst ?p, snd ?p)" by simp
  have c: "StatusCode (snd ?p) = StatusCreated"
    by (simp add: serve_POST decode_coordinates [OF a b] DB_Create_def max_id_def max_rowid_def
        at_def cors_writer_defs)
  have f: "Fault (at 6) = None" by (simp add: at_def)
  have n: "(0x402B8339C0EBEDFA :: float64) \<noteq> negative_zero"
    "(0x4059201D7DBF4880 :: float64) \<noteq> negative_zero"
    by (simp_all add: negative_zero_def)
  show ?thesis
    using a b c f n post_then_get_last [OF a b p c f] by simp
qed

text \<open>
  C2. The claim: the latest-record request returns the stored record of the greatest id,
  which after \<open>N\<close> inserts is the record of the \<open>N\<close>-th insert. On the code the two differ.
  Two creates are answered \<open>201\<close>, the first with \<open>ID\<close> 2 in its body and the second with
  \<open>ID\<close> 1; the request for the latest record is then answered \<open>200\<close> with the record of the
  first create (id 2, the coordinates and the clock of the first request).
\<close>

theorem latest_is_an_older_insert:
  "map StatusCode (snd (run sample_lib []
      [(at 10, POST (with_ID ''2'' ''1'' ''1'')),
       (at 20, POST (with_ID ''1'' ''2'' ''2'')),
       (at 30, GET_last)])) = [StatusCreated, StatusCreated, StatusOK]
   \<and> written (last (snd (run sample_lib []
      [(at 10, POST (with_ID ''2'' ''1'' ''1'')),
       (at 20, POST (with_ID ''1'' ''2'' ''2'')),
       (at 30, GET_last)])))
     = [LocationJSON \<lparr>ID = 2, Latitude = 0x3FF0000000000000, Longitude = 0x3FF0000000000000,
                       Timestamp = 10\<rparr>]"
  by (simp add: serve_POST serve_GET_last eval_defs)

text \<open>
  C3. The claim: every created record gets an id above the ids of all records created
  before it. On the code, two creates are answered \<open>201\<close>, the first with \<open>ID\<close> 5 in its
  body and the second with \<open>ID\<close> 3: the table then holds the ids 5 and 3 in this order of
  insertion, the later record under the smaller id.
\<close>

theorem later_insert_gets_smaller_id:
  "map StatusCode (snd (run sample_lib []
      [(at 10, POST (with_ID ''5'' ''1'' ''1'')),
       (at 20, POST (with_ID ''3'' ''2'' ''2''))])) = [StatusCreated, StatusCreated]
   \<and> map ID (fst (run sample_lib []
      [(at 10, POST (with_ID ''5'' ''1'' ''1'')),
       (at 20, POST (with_ID ''3'' ''2'' ''2''))])) = [5, 3]"
  by (simp add: serve_POST eval_defs)

text \<open>
  C4. The claim: the id and the creation time of a stored record never come from the body
  of the request. On the code, a create on the empty table at clock 1000 whose body has
  the members \<open>ID\<close> 7 and \<open>Timestamp\<close> 2000-01-01T00:00:00Z stores the record under id 7
  with that time; the same coordinates without the two members are stored under id 1 with
  the time 1000 of the clock.
\<close>

theorem client_sets_id_and_timestamp:
  "serve sample_lib (at 1000) []
      (POST (Document (JObject [(''ID'', JNumber ''7''),
                                (''Timestamp'', JString ''2000-01-01T00:00:00Z''),
                                (''Latitude'', JNumber ''1''), (''Longitude'', JNumber ''2'')])))
     = ([\<lparr>ID = 7, Latitude = 0x3FF0000000000000, Longitude = 0x4000000000000000,
           Timestamp = 63082281600\<rparr>],
        Write (Bytes saved_message) (WriteHeader StatusCreated cors))
   \<and> fst (serve sample_lib (at 1000) [] (POST (coordinates ''1'' ''2'')))
     = [\<lparr>ID = 1, Latitude = 0x3FF0000000000000, Longitude = 0x4000000000000000,
          Timestamp = 1000\<rparr>]"
  by (simp add: serve_POST eval_defs)

text \<open>
  C5. A create request whose body the decoder rejects with the error \<open>err\<close> leaves the
  table as it is and is answered \<open>400\<close>, with the body
  \<open>Invalid request payload: \<close> followed by \<open>err\<close> and a newline.
\<close>

theorem undecodable_body_rejected:
  assumes "Decode L b zero_Location = Inl err"
  shows "fst (serve L e db (POST b)) = db
    \<and> StatusCode (snd (serve L e db (POST b))) = StatusBadRequest
    \<and> written (snd (serve L e db (POST b))) = [Bytes (''Invalid request payload: '' @ err @ newline)]"
  using assms by (simp add: serve_POST cors_writer_defs)

theorem undecodable_body_rejected_witness:
  "Decode sample_lib (Unreadable ''invalid character 'h' looking for beginning of value'')
       zero_Location
     = Inl ''invalid character 'h' looking for beginning of value''
   \<and> fst (serve sample_lib (at 5) []
        (POST (Unreadable ''invalid character 'h' looking for beginning of value''))) = []
   \<and> StatusCode (snd (serve sample_lib (at 5) []
        (POST (Unreadable ''invalid character 'h' looking for beginning of value''))))
       = StatusBadRequest"
proof -
  have d: "Decode sample_lib (Unreadable ''invalid character 'h' looking for beginning of value'')
       zero_Location = Inl ''invalid character 'h' looking for beginning of value''"
    by simp
  show ?thesis
    using d undecodable_body_rejected [OF d, of "at 5" "[]"] by simp
qed

text \<open>
  C6. A request to the create path whose method is neither \<open>POST\<close> nor \<open>OPTIONS\<close>, and a
  request to the latest-record path whose method is neither \<open>GET\<close> nor \<open>OPTIONS\<close>, is
  answered \<open>405\<close> and leaves the table as it is; the response is the same whatever the
  table, the clock and the state of the storage are, so the store has no part in it.
\<close>

theorem wrong_method_rejected:
  assumes "Method r \<noteq> ''OPTIONS''"
    and "Path r = ''/api/location'' \<and> Method r \<noteq> ''POST''
         \<or> Path r = ''/api/location/last'' \<and> Method r \<noteq> ''GET''"
  shows "fst (serve L e db r) = db
    \<and> StatusCode (snd (serve L e db r)) = StatusMethodNotAllowed
    \<and> snd (serve L e db r) = snd (serve L' e' db' r)"
  by (simp add: serve_wrong_method [OF assms] StatusCode_http_Error_cors)

theorem wrong_method_rejected_witness:
  "Method GET_last \<noteq> ''OPTIONS''
   \<and> Path (GET_last\<lparr>Path := ''/api/location''\<rparr>) = ''/api/location''
   \<and> StatusCode (snd (serve sample_lib (at 5) [] (GET_last\<lparr>Path := ''/api/location''\<rparr>)))
       = StatusMethodNotAllowed
   \<and> StatusCode (snd (serve sample_lib (at 5) []
        (POST (coordinates ''1'' ''2'')\<lparr>Path := ''/api/location/last''\<rparr>)))
       = StatusMethodNotAllowed"
proof -
  let ?g = "GET_last\<lparr>Path := ''/api/location''\<rparr>"
  let ?p = "POST (coordinates ''1'' ''2'')\<lparr>Path := ''/api/location/last''\<rparr>"
  have g1: "Method ?g \<noteq> ''OPTIONS''" by (simp add: GET_last_def)
  have g2: "Path ?g = ''/api/location'' \<and> Method ?g \<noteq> ''POST''
         \<or> Path ?g = ''/api/location/last'' \<and> Method ?g \<noteq> ''GET''"
    by (simp add: GET_last_def)
  have p1: "Method ?p \<noteq> ''OPTIONS''" by (simp add: POST_def)
  have p2: "Path ?p = ''/api/location'' \<and> Method ?p \<noteq> ''POST''
         \<or> Path ?p = ''/api/location/last'' \<and> Method ?p \<noteq> ''GET''"
    by (simp add: POST_def)
  have a: "StatusCode (snd (serve sample_lib (at 5) [] ?g)) = StatusMethodNotAllowed"
    using wrong_method_rejected [OF g1 g2, of sample_lib "at 5" "[]"] by blast
  have b: "StatusCode (snd (serve sample_lib (at 5) [] ?p)) = StatusMethodNotAllowed"
    using wrong_method_rejected [OF p1 p2, of sample_lib "at 5" "[]"] by blast
  show ?thesis
    using a b g1 by (simp add: GET_last_def)
qed

text \<open>
  C7. A create request whose body decodes and whose insert succeeds is answered \<open>201\<close>,
  and the body of the response is the text
  \<^verbatim>\<open>{"message":"Location saved successfully"}\<close> and a newline: the same text whatever id
  and creation time the record got.
\<close>

theorem created_acknowledged:
  assumes "Decode L b zero_Location = Inr loc" and "DB_Create e db loc = Inr db'"
  shows \<open>fst (serve L e db (POST b)) = db'
    \<and> StatusCode (snd (serve L e db (POST b))) = StatusCreated
    \<and> written (snd (serve L e db (POST b)))
        = [Bytes (''{"message":"Location saved successfully"}'' @ newline)]\<close>
  using assms by (simp add: serve_POST cors_writer_defs saved_message_def)

theorem created_acknowledged_witness:
  \<open>Decode sample_lib (coordinates ''1'' ''2'') zero_Location
     = Inr \<lparr>ID = 0, Latitude = 0x3FF0000000000000, Longitude = 0x4000000000000000, Timestamp = 0\<rparr>
   \<and> DB_Create (at 5) []
        \<lparr>ID = 0, Latitude = 0x3FF0000000000000 , Longitude = 0x4000000000000000,
          Timestamp = 0\<rparr>
     = Inr [\<lparr>ID = 1, Latitude = 0x3FF0000000000000, Longitude = 0x4000000000000000, Timestamp = 5\<rparr>]
   \<and> StatusCode (snd (serve sample_lib (at 5) [] (POST (coordinates ''1'' ''2'')))) = StatusCreated
   \<and> written (snd (serve sample_lib (at 5) [] (POST (coordinates ''1'' ''2''))))
        = [Bytes (''{"message":"Location saved successfully"}'' @ newline)]\<close>
proof -
  let ?loc = "\<lparr>ID = 0, Latitude = 0x3FF0000000000000 ,
               Longitude = 0x4000000000000000, Timestamp = 0\<rparr>"
  have d: "Decode sample_lib (coordinates ''1'' ''2'') zero_Location = Inr ?loc"
    by (rule decode_coordinates) (simp_all add: sample_lib_def)
  have c: "DB_Create (at 5) [] ?loc = Inr [?loc\<lparr>ID := 1, Timestamp := 5\<rparr>]"
    by (simp add: DB_Create_def max_id_def max_rowid_def at_def REAL_def negative_zero_def)
  show ?thesis
    using d c created_acknowledged [OF d c] by simp
qed

lemma post_keeps_header:
  assumes "k \<noteq> ''Content-Type''" "k \<noteq> ''X-Content-Type-Options''" "k \<noteq> ''Content-Length''"
  shows "header (snd (handlePostLocation L e db cors r)) k = header cors k"
  using assms by (simp add: handlePostLocation_def cors_writer_defs split: sum.splits)

lemma get_keeps_header:
  assumes "k \<noteq> ''Content-Type''" "k \<noteq> ''X-Content-Type-Options''" "k \<noteq> ''Content-Length''"
  shows "header (snd (handleGetLastLocation e db cors r)) k = header cors k"
  using assms by (simp add: handleGetLastLocation_def cors_writer_defs split: sum.splits)

lemma serve_keeps_header:
  assumes "Path r = ''/api/location'' \<or> Path r = ''/api/location/last''"
    and "k \<noteq> ''Content-Type''" "k \<noteq> ''X-Content-Type-Options''" "k \<noteq> ''Content-Length''"
  shows "header (snd (serve L e db r)) k = header cors k"
proof (cases "Method r = ''OPTIONS''")
  case True
  with assms(1) show ?thesis
    by (auto simp: serve_def enableCORS_fresh WriteHeader_def cors_def)
next
  case False
  with assms(1) show ?thesis
    by (auto simp: serve_def enableCORS_fresh post_keeps_header [OF assms(2-4)]
        get_keeps_header [OF assms(2-4)])
qed

text \<open>
  C8. Every response of the two registered paths has the three cross-origin headers:
  \<open>Access-Control-Allow-Origin: *\<close>, \<open>Access-Control-Allow-Methods: POST, GET, OPTIONS\<close>
  and \<open>Access-Control-Allow-Headers: Content-Type\<close>. A request with the method \<open>OPTIONS\<close>
  is answered \<open>200\<close> with an empty body, leaves the table as it is, and its response is
  the same whatever the table, the clock and the state of the storage are.
\<close>

theorem cors_on_every_response:
  assumes "Path r = ''/api/location'' \<or> Path r = ''/api/location/last''"
  shows "header (snd (serve L e db r)) ''Access-Control-Allow-Origin'' = Some ''*''
    \<and> header (snd (serve L e db r)) ''Access-Control-Allow-Methods'' = Some ''POST, GET, OPTIONS''
    \<and> header (snd (serve L e db r)) ''Access-Control-Allow-Headers'' = Some ''Content-Type''
    \<and> (Method r = ''OPTIONS'' \<longrightarrow>
         fst (serve L e db r) = db \<and> StatusCode (snd (serve L e db r)) = StatusOK
         \<and> written (snd (serve L e db r)) = []
         \<and> snd (serve L e db r) = snd (serve L' e' db' r))"
proof -
  have "header (snd (serve L e db r)) ''Access-Control-Allow-Origin'' = Some ''*''"
    using serve_keeps_header [OF assms, of "''Access-Control-Allow-Origin''" L e db]
    by (simp add: cors_def)
  moreover have "header (snd (serve L e db r)) ''Access-Control-Allow-Methods''
      = Some ''POST, GET, OPTIONS''"
    using serve_keeps_header [OF assms, of "''Access-Control-Allow-Methods''" L e db]
    by (simp add: cors_def)
  moreover have "header (snd (serve L e db r)) ''Access-Control-Allow-Headers''
      = Some ''Content-Type''"
    using serve_keeps_header [OF assms, of "''Access-Control-Allow-Headers''" L e db]
    by (simp add: cors_def)
  moreover have "fst (serve L e db r) = db \<and> StatusCode (snd (serve L e db r)) = StatusOK
         \<and> written (snd (serve L e db r)) = []
         \<and> snd (serve L e db r) = snd (serve L' e' db' r)" if "Method r = ''OPTIONS''"
    by (simp add: serve_OPTIONS [OF assms that] WriteHeader_def StatusCode_def cors_def)
  ultimately show ?thesis by blast
qed

theorem cors_on_every_response_witness:
  "header (snd (serve sample_lib (at 5) [] GET_last)) ''Access-Control-Allow-Origin'' = Some ''*''
   \<and> StatusCode (snd (serve sample_lib (at 5) [] (GET_last\<lparr>Method := ''OPTIONS''\<rparr>))) = StatusOK
   \<and> written (snd (serve sample_lib (at 5) [] (GET_last\<lparr>Method := ''OPTIONS''\<rparr>))) = []"
proof -
  have g: "Path GET_last = ''/api/location'' \<or> Path GET_last = ''/api/location/last''"
    by (simp add: GET_last_def)
  let ?o = "GET_last\<lparr>Method := ''OPTIONS''\<rparr>"
  have p: "Path ?o = ''/api/location'' \<or> Path ?o = ''/api/location/last''"
    by (simp add: GET_last_def)
  have m: "Method ?o = ''OPTIONS''" by simp
  show ?thesis
    using cors_on_every_response [OF g, of sample_lib "at 5" "[]"]
      cors_on_every_response [OF p, of sample_lib "at 5" "[]"] m
    by blast
qed

lemma serve_appends:
  "\<exists>rows. fst (serve L e db r) = db @ rows \<and> length rows \<le> 1"
proof -
  have post: "\<exists>rows. fst (handlePostLocation L e db w r) = db @ rows \<and> length rows \<le> 1" for w
  proof (cases "Decode L (Body r) zero_Location")
    case (Inl err)
    then show ?thesis by (simp add: handlePostLocation_def)
  next
    case (Inr loc)
    note dec = Inr
    show ?thesis
    proof (cases "DB_Create e db loc")
      case (Inl err)
      with dec show ?thesis by (simp add: handlePostLocation_def)
    next
      case (Inr db')
      with DB_Create_appends [OF Inr] dec show ?thesis
        by (auto simp: handlePostLocation_def)
    qed
  qed
  have get: "fst (handleGetLastLocation e db w r) = db" for w
    by (simp add: handleGetLastLocation_def split: sum.splits)
  show ?thesis
    using post get by (auto simp: serve_def enableCORS_fresh)
qed

text \<open>
  C9. After any sequence of requests the table is the table before it, row for row, with
  new rows behind it, at most one for each request: no stored record is changed in any
  field, none is removed, and one request adds at most one record.
\<close>

theorem stored_rows_kept:
  "\<exists>rows. fst (run L db reqs) = db @ rows \<and> length rows \<le> length reqs"
proof (induction reqs arbitrary: db)
  case Nil
  show ?case by simp
next
  case (Cons q reqs)
  obtain e r where q: "q = (e, r)" by (cases q)
  obtain rows1 where r1: "fst (serve L e db r) = db @ rows1" "length rows1 \<le> 1"
    using serve_appends by blast
  obtain rows2 where r2: "fst (run L (db @ rows1) reqs) = (db @ rows1) @ rows2"
    "length rows2 \<le> length reqs"
    using Cons.IH by blast
  have "fst (run L db (q # reqs)) = db @ (rows1 @ rows2)"
    using r1(1) r2(1) by (auto simp: q split: prod.splits)
  moreover have "length (rows1 @ rows2) \<le> length (q # reqs)"
    using r1(2) r2(2) by simp
  ultimately show ?case by blast
qed

text \<open>
  C10, as the claim states it, fails: the body \<^verbatim>\<open>{"Latitude":"abc"}\<close> is a JSON object, and
  the create request that carries it is answered \<open>400\<close> and stores nothing.
\<close>

theorem mistyped_member_rejected:
  "fst (serve sample_lib (at 5) [] (POST (Document (JObject [(''Latitude'', JString ''abc'')]))))
     = []
   \<and> StatusCode (snd (serve sample_lib (at 5) []
        (POST (Document (JObject [(''Latitude'', JString ''abc'')]))))) = StatusBadRequest"
  by (simp add: serve_POST eval_defs)

text \<open>
  C10, amended. Let the body of a create request be a JSON object that is well typed: each
  member named \<open>ID\<close>, \<open>Latitude\<close>, \<open>Longitude\<close> or \<open>Timestamp\<close>, in any case of the
  letters, is \<open>null\<close> or a value the field can hold. Then the decoder accepts the body,
  also when the object has no member for the latitude or for the longitude, and gives a
  coordinate without a member the value \<open>0\<close>. The request is answered \<open>201\<close> exactly when
  the insert succeeds, which it does whenever the storage has no fault, the object has no
  \<open>ID\<close> member and the keys of the table are not used up. The record it adds has the
  decoded coordinates as the column keeps them, whatever they are, and so \<open>0\<close> for a
  coordinate without a member.
\<close>

theorem well_typed_object_accepted:
  assumes "well_typed L ms"
  shows "\<exists>loc. Decode L (Document (JObject ms)) zero_Location = Inr loc
    \<and> (absent F_Latitude ms \<longrightarrow> Latitude loc = 0)
    \<and> (absent F_Longitude ms \<longrightarrow> Longitude loc = 0)
    \<and> (StatusCode (snd (serve L e db (POST (Document (JObject ms))))) = StatusCreated
          \<longleftrightarrow> (\<exists>db'. DB_Create e db loc = Inr db'))
    \<and> (Fault e = None \<and> absent F_ID ms \<and> max_id db < max_rowid \<longrightarrow>
          StatusCode (snd (serve L e db (POST (Document (JObject ms))))) = StatusCreated)
    \<and> (StatusCode (snd (serve L e db (POST (Document (JObject ms))))) = StatusCreated \<longrightarrow>
          (\<exists>row. fst (serve L e db (POST (Document (JObject ms)))) = db @ [row]
             \<and> Latitude row = REAL (Latitude loc) \<and> Longitude row = REAL (Longitude loc)
             \<and> (absent F_Latitude ms \<longrightarrow> Latitude row = 0)
             \<and> (absent F_Longitude ms \<longrightarrow> Longitude row = 0)))"
proof -
  let ?b = "Document (JObject ms)"
  obtain loc where dec: "Decode L ?b zero_Location = Inr loc"
    using assms Decode_well_typed by blast
  from Decode_absent [OF dec]
  have z: "absent F_ID ms \<longrightarrow> ID loc = 0" "absent F_Latitude ms \<longrightarrow> Latitude loc = 0"
    "absent F_Longitude ms \<longrightarrow> Longitude loc = 0"
    by simp_all
  from dec have om: "object_members L ms zero_Location None = Inr loc" by simp
  have status: "StatusCode (snd (serve L e db (POST ?b))) = StatusCreated
      \<longleftrightarrow> (\<exists>db'. DB_Create e db loc = Inr db')"
    by (cases "DB_Create e db loc") (simp_all add: serve_POST om cors_writer_defs)
  have enough: "\<exists>db'. DB_Create e db loc = Inr db'"
    if "Fault e = None \<and> absent F_ID ms \<and> max_id db < max_rowid"
    using that z(1) by (simp add: DB_Create_def Let_def)
  have row: "\<exists>row. fst (serve L e db (POST ?b)) = db @ [row]
      \<and> Latitude row = REAL (Latitude loc) \<and> Longitude row = REAL (Longitude loc)
      \<and> (absent F_Latitude ms \<longrightarrow> Latitude row = 0)
      \<and> (absent F_Longitude ms \<longrightarrow> Longitude row = 0)"
    if "StatusCode (snd (serve L e db (POST ?b))) = StatusCreated"
  proof -
    from that status obtain db' where cr: "DB_Create e db loc = Inr db'" by blast
    from DB_Create_appends [OF cr] obtain r where r: "db' = db @ [r]"
      "Latitude r = REAL (Latitude loc)" "Longitude r = REAL (Longitude loc)"
      by blast
    have "fst (serve L e db (POST ?b)) = db'"
      by (simp add: serve_POST om cr)
    with r z(2,3) show ?thesis by (auto simp: REAL_def)
  qed
  from dec z(2,3) status enough row show ?thesis by blast
qed

theorem well_typed_object_accepted_witness:
  "well_typed sample_lib [(''latitude'', JNumber ''13.7563'')]
   \<and> absent F_Longitude [(''latitude'', JNumber ''13.7563'')]
   \<and> absent F_ID [(''latitude'', JNumber ''13.7563'')]
   \<and> Fault (at 5) = None \<and> max_id [] < max_rowid
   \<and> StatusCode (snd (serve sample_lib (at 5) []
         (POST (Document (JObject [(''latitude'', JNumber ''13.7563'')]))))) = StatusCreated
   \<and> (\<exists>row. fst (serve sample_lib (at 5) []
         (POST (Document (JObject [(''latitude'', JNumber ''13.7563'')])))) = [row]
         \<and> Longitude row = 0)
   \<and> well_typed sample_lib []
   \<and> StatusCode (snd (serve sample_lib (at 5) [] (POST (Document (JObject []))))) = StatusCreated"
proof -
  let ?ms = "[(''latitude'', JNumber ''13.7563'')]"
  have w: "well_typed sample_lib ?ms"
    by (simp add: well_typed_def key_defs sample_lib_def)
  have a: "absent F_Longitude ?ms" "absent F_ID ?ms"
    by (simp_all add: absent_def key_defs)
  have f: "Fault (at 5) = None" "max_id ([] :: table) < max_rowid"
    by (simp_all add: at_def max_id_def max_rowid_def)
  have w0: "well_typed sample_lib []" "absent F_ID []"
    by (simp_all add: well_typed_def absent_def)
  from well_typed_object_accepted [OF w, of "at 5" "[]"] a f
  have 1: "StatusCode (snd (serve sample_lib (at 5) [] (POST (Document (JObject ?ms))))) = StatusCreated
      \<and> (\<exists>row. fst (serve sample_lib (at 5) [] (POST (Document (JObject ?ms)))) = [row]
            \<and> Longitude row = 0)"
    by auto
  from well_typed_object_accepted [OF w0(1), of "at 5" "[]"] w0(2) f
  have 2: "StatusCode (snd (serve sample_lib (at 5) [] (POST (Document (JObject []))))) = StatusCreated"
    by auto
  from w a f w0(1) 1 2 show ?thesis by blast
qed

end
